theory Spec2Isabelle
  imports Complex_Main "HOL-Library.AList"
begin

section \<open>Values shared by the handlers of main.py\<close>

text \<open>
  Python \<open>str\<close> values are strings of characters; the characters of the keywords the
  handlers test (\<open>yes\<close>, \<open>error\<close>, \<open>warn\<close>, \<open>info\<close>) are ASCII letters. Python floats
  (timestamps, percentages, megabytes) are kept as the real numbers they denote; the rounding of
  the float subtraction \<open>now - mtime\<close> is not part of the model. Python integers are \<open>int\<close>,
  sizes in bytes are \<open>nat\<close>.
\<close>

datatype exn =
    FileNotFoundError string
  | NotADirectoryError string
  | IsADirectoryError string
  | OSError string
  | ZeroDivisionError

text \<open>The argument of an exception is the path it was raised for; \<open>OSError\<close> stands for
  any other failure of the operating system (permission denied, file in use) and carries its
  message. Where a handler reports \<open>str(e)\<close>, the response holds the exception \<open>e\<close>.\<close>

datatype 'a outcome = Returned 'a | Raised exn

text \<open>\<open>str.lower()\<close> on the letters A to Z; every other character is kept. No character
  outside A to Z has \<open>y\<close>, \<open>e\<close> or \<open>s\<close> as its lower case, so the comparison of
  \<open>confirm.lower()\<close> with \<open>yes\<close> is decided by these letters alone.\<close>

definition lower_char :: "char \<Rightarrow> char" where
  "lower_char c =
     (case map_of (zip ''ABCDEFGHIJKLMNOPQRSTUVWXYZ'' ''abcdefghijklmnopqrstuvwxyz'') c of
        Some l \<Rightarrow> l
      | None \<Rightarrow> c)"

definition lower :: "string \<Rightarrow> string" where
  "lower s = map lower_char s"

text \<open>\<open>str(n)\<close> for a Python integer: its decimal digits, with a minus sign when negative.\<close>

definition digit_char :: "nat \<Rightarrow> char" where
  "digit_char d = ''0123456789'' ! d"

fun str_nat :: "nat \<Rightarrow> string" where
  "str_nat n = (if n < 10 then [digit_char n] else str_nat (n div 10) @ [digit_char (n mod 10)])"

declare str_nat.simps [simp del]

definition str_int :: "int \<Rightarrow> string" where
  "str_int i = (if i < 0 then CHR ''-'' # str_nat (nat (- i)) else str_nat (nat i))"

text \<open>\<open>round(x, 2)\<close>: Python rounds the value to the nearest multiple of 0.01 and, when it
  lies exactly half way, to the even one.\<close>

definition round_half_even :: "real \<Rightarrow> int" where
  "round_half_even x =
     (let f = \<lfloor>x\<rfloor>; r = x - of_int f
      in if r < 1 / 2 then f
         else if 1 / 2 < r then f + 1
         else if even f then f else f + 1)"

definition round2 :: "real \<Rightarrow> real" where
  "round2 x = of_int (round_half_even (x * 100)) / 100"

text \<open>\<open>round(total_space / (1024*1024), 2)\<close>\<close>

definition space_mb :: "nat \<Rightarrow> real" where
  "space_mb total_space = round2 (of_nat total_space / (1024 * 1024))"

section \<open>The file system seen by the log handlers\<close>

text \<open>
  What \<open>os.path.isfile\<close>, \<open>os.path.getmtime\<close>, \<open>os.path.getsize\<close> and \<open>os.remove\<close>
  report about one name inside a folder. \<open>remove_error\<close> is the exception
  \<open>os.remove\<close> raises on this entry (a permission or sharing violation), \<open>None\<close> when the
  removal succeeds.
\<close>

record file_entry =
  is_file :: bool
  mtime :: real
  size_bytes :: nat
  remove_error :: "exn option"

text \<open>
  A path names a folder with its entries in \<open>os.listdir\<close> order, a text file with its lines,
  or something that exists but cannot be opened (with the exception \<open>open\<close> raises).
  A path that is not bound does not exist.
\<close>

datatype node =
    Folder "(string \<times> file_entry) list"
  | File "string list"
  | Unreadable exn

type_synonym filesystem = "(string \<times> node) list"

definition os_path_exists :: "filesystem \<Rightarrow> string \<Rightarrow> bool" where
  "os_path_exists fs p = (map_of fs p \<noteq> None)"

definition os_listdir :: "filesystem \<Rightarrow> string \<Rightarrow> exn + string list" where
  "os_listdir fs p =
     (case map_of fs p of
        None \<Rightarrow> Inl (FileNotFoundError p)
      | Some (Folder ents) \<Rightarrow> Inr (map fst ents)
      | Some _ \<Rightarrow> Inl (NotADirectoryError p))"

text \<open>\<open>os.path.join(folder, f)\<close> for a name \<open>f\<close> returned by \<open>os.listdir\<close>.\<close>

definition os_path_join :: "string \<Rightarrow> string \<Rightarrow> string" where
  "os_path_join folder f =
     (if folder = [] \<or> last folder = CHR ''/'' then folder @ f else folder @ ''/'' @ f)"

text \<open>The entry that the path \<open>os.path.join(folder, f)\<close> resolves to.\<close>

definition stat_entry :: "filesystem \<Rightarrow> string \<Rightarrow> string \<Rightarrow> file_entry option" where
  "stat_entry fs folder f =
     (case map_of fs folder of Some (Folder ents) \<Rightarrow> map_of ents f | _ \<Rightarrow> None)"

definition os_path_isfile :: "filesystem \<Rightarrow> string \<Rightarrow> string \<Rightarrow> bool" where
  "os_path_isfile fs folder f =
     (case stat_entry fs folder f of Some e \<Rightarrow> is_file e | None \<Rightarrow> False)"

definition os_path_getmtime :: "filesystem \<Rightarrow> string \<Rightarrow> string \<Rightarrow> exn + real" where
  "os_path_getmtime fs folder f =
     (case stat_entry fs folder f of
        Some e \<Rightarrow> Inr (mtime e)
      | None \<Rightarrow> Inl (FileNotFoundError (os_path_join folder f)))"

definition os_path_getsize :: "filesystem \<Rightarrow> string \<Rightarrow> string \<Rightarrow> exn + nat" where
  "os_path_getsize fs folder f =
     (case stat_entry fs folder f of
        Some e \<Rightarrow> Inr (size_bytes e)
      | None \<Rightarrow> Inl (FileNotFoundError (os_path_join folder f)))"

text \<open>\<open>os.remove(path)\<close>: raises, leaving the file system as it is, or unlinks the entry.\<close>

definition os_remove :: "filesystem \<Rightarrow> string \<Rightarrow> string \<Rightarrow> exn + filesystem" where
  "os_remove fs folder f =
     (case map_of fs folder of
        Some (Folder ents) \<Rightarrow>
          (case map_of ents f of
             None \<Rightarrow> Inl (FileNotFoundError (os_path_join folder f))
           | Some e \<Rightarrow>
               (case remove_error e of
                  Some x \<Rightarrow> Inl x
                | None \<Rightarrow> Inr (AList.update folder (Folder (AList.delete f ents)) fs)))
      | _ \<Rightarrow> Inl (FileNotFoundError (os_path_join folder f)))"

section \<open>GET /logs/preview-delete\<close>

datatype preview_response =
    PreviewError string
  | Preview "(string \<times> nat) list" real string

text \<open>The \<open>for f in os.listdir(folder)\<close> loop of \<open>preview_logs\<close>, with its two accumulators
  \<open>files_to_delete\<close> and \<open>total_space\<close>.\<close>

fun preview_loop ::
  "filesystem \<Rightarrow> string \<Rightarrow> real \<Rightarrow> int \<Rightarrow> string list \<Rightarrow> (string \<times> nat) list \<Rightarrow> nat
     \<Rightarrow> exn + ((string \<times> nat) list \<times> nat)" where
  "preview_loop fs folder now days [] files_to_delete total_space =
     Inr (files_to_delete, total_space)"
| "preview_loop fs folder now days (f # rest) files_to_delete total_space =
     (if os_path_isfile fs folder f then
        (case os_path_getmtime fs folder f of
           Inl e \<Rightarrow> Inl e
         | Inr mt \<Rightarrow>
             if now - mt > of_int (days * 86400) then
               (case os_path_getsize fs folder f of
                  Inl e \<Rightarrow> Inl e
                | Inr sz \<Rightarrow>
                    preview_loop fs folder now days rest
                      (files_to_delete @ [(f, sz)]) (total_space + sz))
             else preview_loop fs folder now days rest files_to_delete total_space)
      else preview_loop fs folder now days rest files_to_delete total_space)"

definition delete_url_of :: "string \<Rightarrow> int \<Rightarrow> string" where
  "delete_url_of folder days =
     ''/logs/delete-confirmed?folder='' @ folder @ ''&days='' @ str_int days @ ''&confirm=yes''"

text \<open>The handler takes the file system and the clock reading \<open>time.time()\<close>, and returns
  its response together with the file system it leaves behind.\<close>

definition preview_logs ::
  "filesystem \<Rightarrow> real \<Rightarrow> string \<Rightarrow> int \<Rightarrow> preview_response outcome \<times> filesystem" where
  "preview_logs fs now folder days =
     (if \<not> os_path_exists fs folder then
        (Returned (PreviewError (''Folder not found: '' @ folder)), fs)
      else
        (case os_listdir fs folder of
           Inl e \<Rightarrow> (Raised e, fs)
         | Inr names \<Rightarrow>
             (case preview_loop fs folder now days names [] 0 of
                Inl e \<Rightarrow> (Raised e, fs)
              | Inr (files_to_delete, total_space) \<Rightarrow>
                  (Returned (Preview files_to_delete (space_mb total_space)
                     (delete_url_of folder days)), fs))))"

section \<open>DELETE /logs/delete-confirmed\<close>

text \<open>An element of \<open>deleted_files\<close>: the name \<open>f\<close> of a removed file, or the
  object \<open>{"file": f, "error": str(e)}\<close>.\<close>

datatype deleted_item = Removed string | RemoveFailed string exn

datatype delete_response =
    NotPerformed string string int
  | DeleteError string
  | Deleted "deleted_item list" real string int

text \<open>The loop of \<open>delete_logs\<close>. Each \<open>os.remove\<close> changes the file system the later
  iterations look at; the names iterated over are the ones \<open>os.listdir\<close> returned before the
  loop. An exception of \<open>os.remove\<close> is caught, anything else leaves the loop.\<close>

fun delete_loop ::
  "filesystem \<Rightarrow> string \<Rightarrow> real \<Rightarrow> int \<Rightarrow> string list \<Rightarrow> deleted_item list \<Rightarrow> nat
     \<Rightarrow> (exn + (deleted_item list \<times> nat)) \<times> filesystem" where
  "delete_loop fs folder now days [] deleted_files total_space =
     (Inr (deleted_files, total_space), fs)"
| "delete_loop fs folder now days (f # rest) deleted_files total_space =
     (if os_path_isfile fs folder f then
        (case os_path_getmtime fs folder f of
           Inl e \<Rightarrow> (Inl e, fs)
         | Inr mt \<Rightarrow>
             if now - mt > of_int (days * 86400) then
               (case os_path_getsize fs folder f of
                  Inl e \<Rightarrow> (Inl e, fs)
                | Inr sz \<Rightarrow>
                    (case os_remove fs folder f of
                       Inr fs' \<Rightarrow>
                         delete_loop fs' folder now days rest
                           (deleted_files @ [Removed f]) (total_space + sz)
                     | Inl e \<Rightarrow>
                         delete_loop fs folder now days rest
                           (deleted_files @ [RemoveFailed f e]) total_space))
             else delete_loop fs folder now days rest deleted_files total_space)
      else delete_loop fs folder now days rest deleted_files total_space)"

definition delete_logs ::
  "filesystem \<Rightarrow> real \<Rightarrow> string \<Rightarrow> int \<Rightarrow> string \<Rightarrow> delete_response outcome \<times> filesystem" where
  "delete_logs fs now folder days confirm =
     (if lower confirm \<noteq> ''yes'' then
        (Returned (NotPerformed ''Deletion not performed. Use ?confirm=yes to proceed.''
           folder days), fs)
      else if \<not> os_path_exists fs folder then
        (Returned (DeleteError (''Folder not found: '' @ folder)), fs)
      else
        (case os_listdir fs folder of
           Inl e \<Rightarrow> (Raised e, fs)
         | Inr names \<Rightarrow>
             (case delete_loop fs folder now days names [] 0 of
                (Inl e, fs') \<Rightarrow> (Raised e, fs')
              | (Inr (deleted_files, total_space), fs') \<Rightarrow>
                  (Returned (Deleted deleted_files (space_mb total_space) folder days), fs'))))"

section \<open>POST /logs/summarize\<close>

text \<open>\<open>re.search(pattern, line, re.IGNORECASE)\<close> for a pattern of plain letters: the pattern
  occurs somewhere in the line, letters compared without regard to case. Lines are strings of
  8-bit characters; the two non-ASCII letters that Python also accepts for \<open>i\<close> (dotted
  capital and dotless small i) lie outside them.\<close>

fun match_here :: "string \<Rightarrow> string \<Rightarrow> bool" where
  "match_here [] s = True"
| "match_here (p # ps) [] = False"
| "match_here (p # ps) (c # cs) = (lower_char c = lower_char p \<and> match_here ps cs)"

fun re_search_ignorecase :: "string \<Rightarrow> string \<Rightarrow> bool" where
  "re_search_ignorecase pat [] = match_here pat []"
| "re_search_ignorecase pat (c # cs) = (match_here pat (c # cs) \<or> re_search_ignorecase pat cs)"

record summary =
  errors :: nat
  warnings :: nat
  info :: nat
  total_lines :: nat

datatype summarize_response =
    SummaryError string
  | SummaryException exn
  | Summary summary

text \<open>\<open>open(file_path, "r", errors="ignore")\<close> and the iteration over its lines.\<close>

definition open_lines :: "filesystem \<Rightarrow> string \<Rightarrow> exn + string list" where
  "open_lines fs file_path =
     (case map_of fs file_path of
        None \<Rightarrow> Inl (FileNotFoundError file_path)
      | Some (File ls) \<Rightarrow> Inr ls
      | Some (Folder ents) \<Rightarrow> Inl (IsADirectoryError file_path)
      | Some (Unreadable e) \<Rightarrow> Inl e)"

fun summarize_loop :: "string list \<Rightarrow> summary \<Rightarrow> summary" where
  "summarize_loop [] s = s"
| "summarize_loop (line # rest) s =
     (let s1 = s\<lparr>total_lines := total_lines s + 1\<rparr>;
          s2 = (if re_search_ignorecase ''error'' line then s1\<lparr>errors := errors s1 + 1\<rparr>
                else if re_search_ignorecase ''warn'' line then s1\<lparr>warnings := warnings s1 + 1\<rparr>
                else if re_search_ignorecase ''info'' line then s1\<lparr>info := info s1 + 1\<rparr>
                else s1)
      in summarize_loop rest s2)"

definition summarize_log :: "filesystem \<Rightarrow> string \<Rightarrow> summarize_response outcome" where
  "summarize_log fs file_path =
     (if \<not> os_path_exists fs file_path then
        Returned (SummaryError (''File not found: '' @ file_path))
      else
        (case open_lines fs file_path of
           Inl e \<Rightarrow> Returned (SummaryException e)
         | Inr ls \<Rightarrow>
             Returned (Summary (summarize_loop ls
               \<lparr>errors = 0, warnings = 0, info = 0, total_lines = 0\<rparr>))))"

section \<open>GET /health\<close>

text \<open>The response fields \<open>cpu\<close>, \<open>memory\<close> and \<open>disk\<close> hold the readings; their
  rendering as text with a percent sign is not modelled.\<close>

record health_response =
  status :: string
  cpu :: real
  memory :: real
  disk :: real

text \<open>\<open>health_check\<close>, with the readings of \<open>psutil\<close> as arguments.\<close>

definition health_check :: "real \<Rightarrow> real \<Rightarrow> real \<Rightarrow> health_response" where
  "health_check cpu_percent memory_percent disk_percent =
     \<lparr>status = (if cpu_percent < 80 \<and> memory_percent < 80 then ''OK'' else ''WARNING''),
      cpu = cpu_percent, memory = memory_percent, disk = disk_percent\<rparr>"

text \<open>\<open>health\<close>, the handler defined at the end of the module; \<open>disk_used\<close> and
  \<open>disk_total\<close> are the byte counts of \<open>shutil.disk_usage("/")\<close>, whose quotient
  raises when the total is zero.\<close>

definition health :: "real \<Rightarrow> real \<Rightarrow> int \<Rightarrow> int \<Rightarrow> health_response outcome" where
  "health cpu_percent memory_percent disk_used disk_total =
     (if disk_total = 0 then Raised ZeroDivisionError
      else Returned
        \<lparr>status = ''OK'', cpu = cpu_percent, memory = memory_percent,
         disk = of_int disk_used / of_int disk_total * 100\<rparr>)"

section \<open>The module body: application objects and route registration\<close>

datatype http_method = GET | POST | DELETE

datatype handler =
    Fn_api_list_users | Fn_health_check | Fn_preview_logs | Fn_delete_logs | Fn_summarize_log
  | Fn_get_events | Fn_ai_plugin_manifest | Fn_health | Fn_root

type_synonym route = "http_method \<times> string \<times> handler"

text \<open>The top-level statements that touch the name \<open>app\<close>: \<open>app = FastAPI(...)\<close>
  creates an application object and binds the name to it; a decorated function
  \<open>@app.get(path)\<close> (or \<open>post\<close>, \<open>delete\<close>) adds a route to the object the name is bound
  to at that moment.\<close>

datatype stmt = NewFastAPI | AddRoute http_method string handler

record module_state =
  objects :: "route list list"
  app :: "nat option"

fun exec_stmt :: "stmt \<Rightarrow> module_state \<Rightarrow> module_state option" where
  "exec_stmt NewFastAPI s =
     Some \<lparr>objects = objects s @ [[]], app = Some (length (objects s))\<rparr>"
| "exec_stmt (AddRoute m p h) s =
     (case app s of
        None \<Rightarrow> None
      | Some i \<Rightarrow>
          if i < length (objects s)
          then Some (s\<lparr>objects := (objects s)[i := objects s ! i @ [(m, p, h)]]\<rparr>)
          else None)"

fun exec_module :: "stmt list \<Rightarrow> module_state \<Rightarrow> module_state option" where
  "exec_module [] s = Some s"
| "exec_module (c # cs) s =
     (case exec_stmt c s of None \<Rightarrow> None | Some s' \<Rightarrow> exec_module cs s')"

definition main_py :: "stmt list" where
  "main_py =
     [NewFastAPI,
      AddRoute GET ''/users'' Fn_api_list_users,
      AddRoute GET ''/health'' Fn_health_check,
      AddRoute GET ''/logs/preview-delete'' Fn_preview_logs,
      AddRoute DELETE ''/logs/delete-confirmed'' Fn_delete_logs,
      AddRoute POST ''/logs/summarize'' Fn_summarize_log,
      AddRoute GET ''/events'' Fn_get_events,
      AddRoute GET ''/.well-known/ai-plugin.json'' Fn_ai_plugin_manifest,
      NewFastAPI,
      AddRoute GET ''/health'' Fn_health,
      AddRoute GET ''/'' Fn_root]"

text \<open>The routes of the object that \<open>main:app\<close> names once the module has been imported.\<close>

definition exported_app :: "route list option" where
  "exported_app =
     (case exec_module main_py \<lparr>objects = [], app = None\<rparr> of
        None \<Rightarrow> None
      | Some s \<Rightarrow>
          (case app s of
             None \<Rightarrow> None
           | Some i \<Rightarrow> if i < length (objects s) then Some (objects s ! i) else None))"

text \<open>Routing: the first registered route with the request's method and path.\<close>

definition dispatch :: "route list \<Rightarrow> http_method \<Rightarrow> string \<Rightarrow> handler option" where
  "dispatch routes m p =
     map_option (\<lambda>(m', p', h). h) (find (\<lambda>(m', p', h). m' = m \<and> p' = p) routes)"

text \<open>The handler the exported application runs for a request.\<close>

definition serve :: "http_method \<Rightarrow> string \<Rightarrow> handler option" where
  "serve m p = (case exported_app of None \<Rightarrow> None | Some routes \<Rightarrow> dispatch routes m p)"

section \<open>Specification-side definitions\<close>

text \<open>The age test of the specification: a regular file whose age \<open>now - mtime\<close> exceeds
  \<open>days * 86400\<close> seconds.\<close>

definition older_than :: "real \<Rightarrow> int \<Rightarrow> file_entry \<Rightarrow> bool" where
  "older_than now days e = (is_file e \<and> now - mtime e > of_int days * 86400)"

text \<open>Reading the fields \<open>files_to_delete\<close>, \<open>deleted_files\<close> and
  \<open>space_freed_mb\<close> off a response; \<open>None\<close> when the handler raised or returned an
  object without the field.\<close>

fun files_to_delete :: "preview_response outcome \<Rightarrow> (string \<times> nat) list option" where
  "files_to_delete (Returned (Preview files mb url)) = Some files"
| "files_to_delete r = None"

fun deleted_files :: "delete_response outcome \<Rightarrow> deleted_item list option" where
  "deleted_files (Returned (Deleted items mb folder days)) = Some items"
| "deleted_files r = None"

fun space_freed_mb :: "delete_response outcome \<Rightarrow> real option" where
  "space_freed_mb (Returned (Deleted items mb folder days)) = Some mb"
| "space_freed_mb r = None"

text \<open>The file name an element of \<open>deleted_files\<close> is about.\<close>

fun item_name :: "deleted_item \<Rightarrow> string" where
  "item_name (Removed f) = f"
| "item_name (RemoveFailed f e) = f"

text \<open>The element of \<open>deleted_files\<close> the specification expects for one selected entry:
  its name when the removal succeeds, the name with the error when \<open>os.remove\<close> raises.\<close>

definition item_of :: "string \<times> file_entry \<Rightarrow> deleted_item" where
  "item_of p =
     (case remove_error (snd p) of None \<Rightarrow> Removed (fst p) | Some x \<Rightarrow> RemoveFailed (fst p) x)"

text \<open>The bucket of the specification for one line: the first keyword of \<open>error\<close>,
  \<open>warn\<close>, \<open>info\<close> that the line contains.\<close>

datatype bucket = ErrorLine | WarningLine | InfoLine | Unclassified

definition bucket_of :: "string \<Rightarrow> bucket" where
  "bucket_of line =
     (if re_search_ignorecase ''error'' line then ErrorLine
      else if re_search_ignorecase ''warn'' line then WarningLine
      else if re_search_ignorecase ''info'' line then InfoLine
      else Unclassified)"

text \<open>Example file systems used to instantiate the theorems.\<close>

definition example_fs :: filesystem where
  "example_fs =
     [(''logs'', Folder
         [(''a.log'', \<lparr>is_file = True, mtime = 100, size_bytes = 131072, remove_error = None\<rparr>),
          (''b.log'', \<lparr>is_file = True, mtime = 200, size_bytes = 1048576,
                      remove_error = Some (OSError ''denied'')\<rparr>),
          (''c.log'', \<lparr>is_file = True, mtime = 300, size_bytes = 262144, remove_error = None\<rparr>),
          (''new.log'', \<lparr>is_file = True, mtime = 5000000, size_bytes = 7, remove_error = None\<rparr>),
          (''sub'', \<lparr>is_file = False, mtime = 100, size_bytes = 4096, remove_error = None\<rparr>)]),
      (''app.log'', File [''ERROR: disk warning'', ''Warn: low info'', ''information'', ''ok''])]"

section \<open>Helper lemmas\<close>

lemmas os_defs = os_path_exists_def os_listdir_def os_path_isfile_def os_path_getmtime_def
  os_path_getsize_def os_remove_def stat_entry_def

lemma distinct_entries_lookup:
  "distinct (map fst ents) \<Longrightarrow> list_all (\<lambda>(n, e). map_of ents n = Some e) ents"
  by (auto simp: list_all_iff)

lemma preview_loop_char:
  assumes "map_of fs folder = Some (Folder cur)"
    and "list_all (\<lambda>(n, e). map_of cur n = Some e) ents"
  shows "preview_loop fs folder now days (map fst ents) files tot =
     Inr (files @ map (\<lambda>(n, e). (n, size_bytes e)) (filter (\<lambda>(n, e). older_than now days e) ents),
          tot + sum_list (map (\<lambda>(n, e). size_bytes e)
                  (filter (\<lambda>(n, e). older_than now days e) ents)))"
  using assms
proof (induction ents arbitrary: files tot)
  case Nil
  then show ?case by simp
next
  case (Cons a ents)
  obtain n e where a: "a = (n, e)" by (cases a)
  from Cons.prems a have st: "stat_entry fs folder n = Some e"
    by (simp add: stat_entry_def)
  from Cons.prems have rest: "list_all (\<lambda>(n, e). map_of cur n = Some e) ents" by simp
  show ?case
    using Cons.IH [OF Cons.prems(1) rest] a st
    by (simp add: os_path_isfile_def os_path_getmtime_def os_path_getsize_def older_than_def)
qed

lemma delete_loop_char:
  assumes "map_of fs folder = Some (Folder cur)"
    and "list_all (\<lambda>(n, e). map_of cur n = Some e) ents"
    and "distinct (map fst ents)"
  shows "fst (delete_loop fs folder now days (map fst ents) deleted tot) =
     Inr (deleted @ map item_of (filter (\<lambda>(n, e). older_than now days e) ents),
          tot + sum_list (map (\<lambda>(n, e). size_bytes e)
                  (filter (\<lambda>(n, e). older_than now days e \<and> remove_error e = None) ents)))"
  using assms
proof (induction ents arbitrary: fs cur deleted tot)
  case Nil
  then show ?case by simp
next
  case (Cons a ents)
  obtain n e where a: "a = (n, e)" by (cases a)
  from Cons.prems a have cur_n: "map_of cur n = Some e" by simp
  then have st: "stat_entry fs folder n = Some e"
    using Cons.prems(1) by (simp add: stat_entry_def)
  from Cons.prems have rest: "list_all (\<lambda>(n, e). map_of cur n = Some e) ents" by simp
  from Cons.prems a have dist: "distinct (map fst ents)" and notin: "n \<notin> fst ` set ents" by auto
  show ?case
  proof (cases "older_than now days e \<and> remove_error e = None")
    case True
    let ?fs' = "AList.update folder (Folder (AList.delete n cur)) fs"
    have rm: "os_remove fs folder n = Inr ?fs'"
      using Cons.prems(1) cur_n True by (simp add: os_remove_def)
    have f': "map_of ?fs' folder = Some (Folder (AList.delete n cur))"
      by (simp add: AList.update_conv')
    have rest': "list_all (\<lambda>(m, e). map_of (AList.delete n cur) m = Some e) ents"
      using rest notin by (fastforce simp: list_all_iff AList.delete_conv' image_iff)
    show ?thesis
      using Cons.IH [OF f' rest' dist] a st True rm
      by (simp add: os_path_isfile_def os_path_getmtime_def os_path_getsize_def older_than_def item_of_def)
  next
    case False
    show ?thesis
      using Cons.IH [OF Cons.prems(1) rest dist] a st False Cons.prems(1) cur_n
      by (auto simp add: os_path_isfile_def os_path_getmtime_def os_path_getsize_def
            older_than_def os_remove_def item_of_def split: option.splits)
  qed
qed

lemma delete_logs_folder:
  assumes "map_of fs folder = Some (Folder ents)" and "distinct (map fst ents)"
  shows "fst (delete_logs fs now folder days ''yes'') =
     Returned (Deleted (map item_of (filter (\<lambda>(n, e). older_than now days e) ents))
       (space_mb (sum_list (map (\<lambda>(n, e). size_bytes e)
          (filter (\<lambda>(n, e). older_than now days e \<and> remove_error e = None) ents))))
       folder days)"
proof -
  have low: "lower ''yes'' = ''yes''" by (simp add: lower_def lower_char_def)
  have ls: "os_listdir fs folder = Inr (map fst ents)"
    using assms(1) by (simp add: os_listdir_def)
  have ex: "os_path_exists fs folder" using assms(1) by (simp add: os_path_exists_def)
  obtain r fs' where dl: "delete_loop fs folder now days (map fst ents) [] 0 = (r, fs')"
    by (cases "delete_loop fs folder now days (map fst ents) [] 0")
  have "r = fst (delete_loop fs folder now days (map fst ents) [] 0)" using dl by simp
  also have "\<dots> = Inr ([] @ map item_of (filter (\<lambda>(n, e). older_than now days e) ents),
      0 + sum_list (map (\<lambda>(n, e). size_bytes e)
          (filter (\<lambda>(n, e). older_than now days e \<and> remove_error e = None) ents)))"
    by (rule delete_loop_char [OF assms(1) distinct_entries_lookup [OF assms(2)] assms(2)])
  finally have r: "r = Inr (map item_of (filter (\<lambda>(n, e). older_than now days e) ents),
      sum_list (map (\<lambda>(n, e). size_bytes e)
          (filter (\<lambda>(n, e). older_than now days e \<and> remove_error e = None) ents)))" by simp
  show ?thesis
    by (simp add: delete_logs_def low ls ex dl r)
qed

lemma preview_logs_folder:
  assumes "map_of fs folder = Some (Folder ents)" and "distinct (map fst ents)"
  shows "preview_logs fs now folder days =
     (Returned (Preview (map (\<lambda>(n, e). (n, size_bytes e)) (filter (\<lambda>(n, e). older_than now days e) ents))
        (space_mb (sum_list (map (\<lambda>(n, e). size_bytes e)
           (filter (\<lambda>(n, e). older_than now days e) ents))))
        (delete_url_of folder days)), fs)"
proof -
  have ls: "os_listdir fs folder = Inr (map fst ents)"
    using assms(1) by (simp add: os_listdir_def)
  have ex: "os_path_exists fs folder" using assms(1) by (simp add: os_path_exists_def)
  show ?thesis
    by (simp add: preview_logs_def ls ex
          preview_loop_char [OF assms(1) distinct_entries_lookup [OF assms(2)]])
qed

lemma item_name_item_of: "item_name (item_of p) = fst p"
  by (simp add: item_of_def split: option.splits)

lemma summarize_loop_char:
  "summarize_loop ls s =
     \<lparr>errors = errors s + length (filter (\<lambda>l. bucket_of l = ErrorLine) ls),
      warnings = warnings s + length (filter (\<lambda>l. bucket_of l = WarningLine) ls),
      info = info s + length (filter (\<lambda>l. bucket_of l = InfoLine) ls),
      total_lines = total_lines s + length ls\<rparr>"
proof (induction ls arbitrary: s)
  case Nil
  show ?case by simp
next
  case (Cons l ls)
  show ?case
    by (simp add: Cons.IH Let_def bucket_of_def)
qed

lemma bucket_counts_le:
  "length (filter (\<lambda>l. bucket_of l = ErrorLine) ls)
   + length (filter (\<lambda>l. bucket_of l = WarningLine) ls)
   + length (filter (\<lambda>l. bucket_of l = InfoLine) ls) \<le> length ls"
  by (induction ls) auto

lemma example_fs_logs:
  "map_of example_fs ''logs'' = Some (Folder
         [(''a.log'', \<lparr>is_file = True, mtime = 100, size_bytes = 131072, remove_error = None\<rparr>),
          (''b.log'', \<lparr>is_file = True, mtime = 200, size_bytes = 1048576,
                      remove_error = Some (OSError ''denied'')\<rparr>),
          (''c.log'', \<lparr>is_file = True, mtime = 300, size_bytes = 262144, remove_error = None\<rparr>),
          (''new.log'', \<lparr>is_file = True, mtime = 5000000, size_bytes = 7, remove_error = None\<rparr>),
          (''sub'', \<lparr>is_file = False, mtime = 100, size_bytes = 4096, remove_error = None\<rparr>)])"
  by (simp add: example_fs_def)

lemma bucket_error_line: "bucket_of ''ERROR: disk warning'' = ErrorLine"
  by code_simp

lemma bucket_warning_line: "bucket_of ''Warn: low info'' = WarningLine"
  by code_simp

lemma bucket_info_line: "bucket_of ''information'' = InfoLine"
  by code_simp

lemma bucket_other_line: "bucket_of ''ok'' = Unclassified"
  by code_simp

lemma example_logs_distinct:
  "distinct (map fst
         [(''a.log'', \<lparr>is_file = True, mtime = 100, size_bytes = 131072, remove_error = None\<rparr>),
          (''b.log'', \<lparr>is_file = True, mtime = 200, size_bytes = 1048576,
                      remove_error = Some (OSError ''denied'')\<rparr>),
          (''c.log'', \<lparr>is_file = True, mtime = 300, size_bytes = 262144, remove_error = None\<rparr>),
          (''new.log'', \<lparr>is_file = True, mtime = 5000000, size_bytes = 7, remove_error = None\<rparr>),
          (''sub'', \<lparr>is_file = False, mtime = 100, size_bytes = 4096, remove_error = None\<rparr>)])"
  by simp

lemma round2_three_eighths: "round2 (3 / 8) = 38 / 100"
  by (simp add: round2_def round_half_even_def Let_def)

lemma round2_eleven_eighths: "round2 (11 / 8) = 138 / 100"
  by (simp add: round2_def round_half_even_def Let_def)

lemma str_int_30: "str_int 30 = ''30''"
  by (simp add: str_int_def str_nat.simps digit_char_def)

section \<open>Confirmation gate of the delete handler\<close>

text \<open>
  C1 (as stated): no file is deleted unless \<open>confirm\<close> is exactly the string \<open>yes\<close>.
  The handler compares \<open>confirm.lower()\<close>, so the upper-case spelling \<open>YES\<close>, which is
  not the string \<open>yes\<close>, also deletes: on the example file system the old file
  \<open>a.log\<close> is gone afterwards.
\<close>

theorem delete_logs_uppercase_confirm_deletes:
  "''YES'' \<noteq> ''yes'' \<and>
   snd (delete_logs example_fs 5000100 ''logs'' 30 ''YES'') \<noteq> example_fs \<and>
   stat_entry example_fs ''logs'' ''a.log'' \<noteq> None \<and>
   stat_entry (snd (delete_logs example_fs 5000100 ''logs'' 30 ''YES'')) ''logs'' ''a.log'' = None"
  by (simp add: delete_logs_def example_fs_def os_defs lower_def lower_char_def AList.delete_eq)

text \<open>
  C1 (amended): whenever \<open>confirm\<close>, converted to lower case, differs from \<open>yes\<close>, the
  handler returns the no-op message object with the folder and days it was given and leaves the
  file system exactly as it was.
\<close>

theorem delete_logs_unconfirmed_noop:
  "lower confirm \<noteq> ''yes'' \<Longrightarrow>
   delete_logs fs now folder days confirm =
     (Returned (NotPerformed ''Deletion not performed. Use ?confirm=yes to proceed.'' folder days),
      fs)"
  by (simp add: delete_logs_def)

theorem delete_logs_unconfirmed_noop_witness:
  "lower ''no'' \<noteq> ''yes'' \<and>
   delete_logs example_fs 5000100 ''logs'' 30 ''no'' =
     (Returned (NotPerformed ''Deletion not performed. Use ?confirm=yes to proceed.'' ''logs'' 30),
      example_fs)"
proof -
  have h: "lower ''no'' \<noteq> ''yes''" by (simp add: lower_def lower_char_def)
  show ?thesis
    using h delete_logs_unconfirmed_noop [OF h, of example_fs 5000100 "''logs''" 30] by simp
qed

section \<open>Preview and delete select the same files\<close>

text \<open>
  C2: for the same folder, days, file system and clock reading, the names listed in
  \<open>files_to_delete\<close> by the preview handler are the names the delete handler (with
  \<open>confirm=yes\<close>) selects for removal, in the same order; in both, an entry of the folder is
  selected exactly when it is a regular file with \<open>now - mtime > days * 86400\<close>.
\<close>

theorem preview_delete_same_selection:
  assumes "map_of fs folder = Some (Folder ents)" and "distinct (map fst ents)"
  shows "map_option (map fst) (files_to_delete (fst (preview_logs fs now folder days))) =
           Some (map fst (filter (\<lambda>(n, e). is_file e \<and> now - mtime e > of_int days * 86400) ents)) \<and>
         map_option (map item_name) (deleted_files (fst (delete_logs fs now folder days ''yes''))) =
           Some (map fst (filter (\<lambda>(n, e). is_file e \<and> now - mtime e > of_int days * 86400) ents))"
proof -
  let ?sel = "filter (\<lambda>(n, e). older_than now days e) ents"
  have sel: "filter (\<lambda>(n, e). is_file e \<and> now - mtime e > of_int days * 86400) ents = ?sel"
    by (simp add: older_than_def)
  have n1: "map fst (map (\<lambda>(n, e). (n, size_bytes e)) ?sel) = map fst ?sel"
    by (simp add: case_prod_beta comp_def)
  have n2: "map item_name (map item_of ?sel) = map fst ?sel"
    by (simp add: item_name_item_of comp_def)
  show ?thesis
    unfolding sel
    using n1 n2 by (simp add: preview_logs_folder [OF assms] delete_logs_folder [OF assms])
qed

theorem preview_delete_same_selection_witness:
  "map_of example_fs ''logs'' \<noteq> None \<and>
   map_option (map fst) (files_to_delete (fst (preview_logs example_fs 5000100 ''logs'' 30))) =
      Some [''a.log'', ''b.log'', ''c.log''] \<and>
   map_option (map item_name)
      (deleted_files (fst (delete_logs example_fs 5000100 ''logs'' 30 ''yes''))) =
      Some [''a.log'', ''b.log'', ''c.log'']"
proof -
  show ?thesis
    using preview_delete_same_selection [OF example_fs_logs example_logs_distinct, of 5000100 30] example_fs_logs
    by simp
qed

section \<open>Line classification of the summarize handler\<close>

text \<open>
  C3: for a file that reads as a list of lines, the summarize handler returns a summary in which
  \<open>errors\<close>, \<open>warnings\<close> and \<open>info\<close> count the lines whose first matching keyword, tried
  in the order \<open>error\<close>, \<open>warn\<close>, \<open>info\<close> without regard to case, is the respective
  one, so that a line is counted in at most one of them; \<open>total_lines\<close> is the number of
  lines, and the three counts together do not exceed it.
\<close>

theorem summarize_log_counts:
  assumes "map_of fs file_path = Some (File ls)"
  shows "summarize_log fs file_path =
           Returned (Summary
             \<lparr>errors = length (filter (\<lambda>l. bucket_of l = ErrorLine) ls),
              warnings = length (filter (\<lambda>l. bucket_of l = WarningLine) ls),
              info = length (filter (\<lambda>l. bucket_of l = InfoLine) ls),
              total_lines = length ls\<rparr>) \<and>
         length (filter (\<lambda>l. bucket_of l = ErrorLine) ls)
           + length (filter (\<lambda>l. bucket_of l = WarningLine) ls)
           + length (filter (\<lambda>l. bucket_of l = InfoLine) ls) \<le> length ls"
  using assms bucket_counts_le [of ls]
  by (simp add: summarize_log_def os_path_exists_def open_lines_def summarize_loop_char)

theorem summarize_log_counts_witness:
  "map_of example_fs ''app.log'' =
     Some (File [''ERROR: disk warning'', ''Warn: low info'', ''information'', ''ok'']) \<and>
   summarize_log example_fs ''app.log'' =
     Returned (Summary \<lparr>errors = 1, warnings = 1, info = 1, total_lines = 4\<rparr>)"
proof -
  have h: "map_of example_fs ''app.log'' =
      Some (File [''ERROR: disk warning'', ''Warn: low info'', ''information'', ''ok''])"
    by (simp add: example_fs_def)
  show ?thesis
    using h summarize_log_counts [OF h]
    by (simp add: bucket_error_line bucket_warning_line bucket_info_line bucket_other_line)
qed

section \<open>Status of the health handlers\<close>

text \<open>
  C4 (as stated): the status is \<open>OK\<close> when a reading equals exactly 80. With a cpu reading of
  80, which does not exceed 80, and a memory reading of 0, \<open>health_check\<close> answers
  \<open>WARNING\<close>.
\<close>

theorem health_check_at_80_is_warning:
  "\<not> (80::real) > 80 \<and> \<not> (0::real) > 80 \<and>
   status (health_check 80 0 0) = ''WARNING'' \<and> status (health_check 80 0 0) \<noteq> ''OK''"
  by (simp add: health_check_def)

text \<open>
  C4 (amended): \<open>health_check\<close> returns status \<open>WARNING\<close> exactly when the cpu percentage or
  the memory percentage is at least 80, and status \<open>OK\<close> exactly when both are below 80.
\<close>

theorem health_check_status:
  "(status (health_check cpu_percent memory_percent disk_percent) = ''WARNING'')
     = (80 \<le> cpu_percent \<or> 80 \<le> memory_percent) \<and>
   (status (health_check cpu_percent memory_percent disk_percent) = ''OK'')
     = (cpu_percent < 80 \<and> memory_percent < 80)"
  by (auto simp: health_check_def)

section \<open>The exported application\<close>

text \<open>
  C5: after the module body has run, the application object bound to \<open>app\<close> holds exactly the
  routes \<open>GET /health\<close> and \<open>GET /\<close>; a request \<open>GET /health\<close> reaches the handler
  \<open>health\<close>, and every response of that handler has status \<open>OK\<close>, whatever the cpu, memory
  and disk readings are (it returns whenever the disk total is not zero).
\<close>

theorem exported_app_health_always_ok:
  "exported_app = Some [(GET, ''/health'', Fn_health), (GET, ''/'', Fn_root)] \<and>
   serve GET ''/health'' = Some Fn_health \<and>
   (\<forall>r. health cpu_percent memory_percent disk_used disk_total = Returned r
          \<longrightarrow> status r = ''OK'') \<and>
   (disk_total \<noteq> 0 \<longrightarrow>
      (\<exists>r. health cpu_percent memory_percent disk_used disk_total = Returned r))"
proof -
  have e: "exported_app = Some [(GET, ''/health'', Fn_health), (GET, ''/'', Fn_root)]"
    by (simp add: exported_app_def main_py_def)
  have d: "serve GET ''/health'' = Some Fn_health"
    by (simp add: serve_def e dispatch_def)
  have h: "\<forall>r. health cpu_percent memory_percent disk_used disk_total = Returned r
          \<longrightarrow> status r = ''OK''"
    by (auto simp: health_def split: if_splits)
  have t: "disk_total \<noteq> 0 \<longrightarrow>
      (\<exists>r. health cpu_percent memory_percent disk_used disk_total = Returned r)"
    by (simp add: health_def)
  from e d h t show ?thesis by blast
qed

theorem exported_app_health_always_ok_witness:
  "(100::int) \<noteq> 0 \<and>
   health 95 99 50 100 = Returned \<lparr>status = ''OK'', cpu = 95, memory = 99, disk = 50\<rparr> \<and>
   status \<lparr>status = ''OK'', cpu = 95, memory = 99, disk = (50::real)\<rparr> = ''OK''"
proof -
  have r: "health 95 99 50 100 = Returned \<lparr>status = ''OK'', cpu = 95, memory = 99, disk = 50\<rparr>"
    by (simp add: health_def)
  show ?thesis
    using exported_app_health_always_ok [of 95 99 50 100] r by simp
qed

section \<open>Missing folders and files\<close>

text \<open>
  C6: when the folder does not exist, the preview handler and the delete handler with
  \<open>confirm=yes\<close> return an object whose \<open>error\<close> field is \<open>Folder not found: \<close> followed
  by the folder; when the file path does not exist, the summarize handler returns an object whose
  \<open>error\<close> field is \<open>File not found: \<close> followed by the path. None of them raises.
\<close>

theorem missing_path_error_object:
  assumes "\<not> os_path_exists fs p"
  shows "fst (preview_logs fs now p days) = Returned (PreviewError (''Folder not found: '' @ p)) \<and>
         fst (delete_logs fs now p days ''yes'') = Returned (DeleteError (''Folder not found: '' @ p)) \<and>
         summarize_log fs p = Returned (SummaryError (''File not found: '' @ p))"
proof -
  have low: "lower ''yes'' = ''yes''" by (simp add: lower_def lower_char_def)
  show ?thesis
    using assms by (simp add: preview_logs_def delete_logs_def summarize_log_def low)
qed

theorem missing_path_error_object_witness:
  "\<not> os_path_exists example_fs ''gone'' \<and>
   fst (preview_logs example_fs 5000100 ''gone'' 30) = Returned (PreviewError ''Folder not found: gone'') \<and>
   fst (delete_logs example_fs 5000100 ''gone'' 30 ''yes'') = Returned (DeleteError ''Folder not found: gone'') \<and>
   summarize_log example_fs ''gone'' = Returned (SummaryError ''File not found: gone'')"
proof -
  have h: "\<not> os_path_exists example_fs ''gone''"
    by (simp add: os_path_exists_def example_fs_def)
  show ?thesis
    using h missing_path_error_object [OF h, of 5000100 30] by simp
qed

section \<open>Per-file failures of the delete handler\<close>

text \<open>
  C7: with \<open>confirm=yes\<close> on a folder, the delete handler returns, and \<open>deleted_files\<close> has
  one element for every selected file, in listing order: the file name when the removal
  succeeded, the name together with the error when \<open>os.remove\<close> raised. A failure therefore
  neither ends the loop nor replaces the response.
\<close>

theorem delete_logs_records_failures:
  assumes "map_of fs folder = Some (Folder ents)" and "distinct (map fst ents)"
  shows "deleted_files (fst (delete_logs fs now folder days ''yes'')) =
           Some (map item_of
             (filter (\<lambda>(n, e). is_file e \<and> now - mtime e > of_int days * 86400) ents))"
proof -
  have sel: "filter (\<lambda>(n, e). is_file e \<and> now - mtime e > of_int days * 86400) ents
      = filter (\<lambda>(n, e). older_than now days e) ents"
    by (simp add: older_than_def)
  show ?thesis
    unfolding sel by (simp add: delete_logs_folder [OF assms])
qed

theorem delete_logs_records_failures_witness:
  "map_of example_fs ''logs'' \<noteq> None \<and>
   deleted_files (fst (delete_logs example_fs 5000100 ''logs'' 30 ''yes'')) =
     Some [Removed ''a.log'', RemoveFailed ''b.log'' (OSError ''denied''), Removed ''c.log'']"
proof -
  show ?thesis
    using delete_logs_records_failures [OF example_fs_logs example_logs_distinct, of 5000100 30] example_fs_logs
    by (simp add: item_of_def)
qed

section \<open>Response of the preview handler\<close>

text \<open>
  C8: for a folder that exists, the preview handler returns the regular files of the folder whose
  age \<open>now - mtime\<close> exceeds \<open>days * 86400\<close> seconds, each with its size in bytes, the sum
  of those sizes divided by \<open>1024 * 1024\<close> and rounded to two decimals, and the URL
  \<open>/logs/delete-confirmed?folder=<folder>&days=<days>&confirm=yes\<close>.
\<close>

theorem preview_logs_response:
  assumes "map_of fs folder = Some (Folder ents)" and "distinct (map fst ents)"
  shows "fst (preview_logs fs now folder days) =
     Returned (Preview
       (map (\<lambda>(n, e). (n, size_bytes e))
          (filter (\<lambda>(n, e). is_file e \<and> now - mtime e > of_int days * 86400) ents))
       (round2 (of_nat (sum_list (map (\<lambda>(n, e). size_bytes e)
          (filter (\<lambda>(n, e). is_file e \<and> now - mtime e > of_int days * 86400) ents)))
          / (1024 * 1024)))
       (''/logs/delete-confirmed?folder='' @ folder @ ''&days='' @ str_int days @ ''&confirm=yes''))"
proof -
  have sel: "filter (\<lambda>(n, e). is_file e \<and> now - mtime e > of_int days * 86400) ents
      = filter (\<lambda>(n, e). older_than now days e) ents"
    by (simp add: older_than_def)
  show ?thesis
    unfolding sel by (simp add: preview_logs_folder [OF assms] space_mb_def delete_url_of_def)
qed

theorem preview_logs_response_witness:
  "map_of example_fs ''logs'' \<noteq> None \<and>
   fst (preview_logs example_fs 5000100 ''logs'' 30) =
     Returned (Preview [(''a.log'', 131072), (''b.log'', 1048576), (''c.log'', 262144)]
       (138 / 100) ''/logs/delete-confirmed?folder=logs&days=30&confirm=yes'')"
  using preview_logs_response [OF example_fs_logs example_logs_distinct, of 5000100 30]
    example_fs_logs
  by (simp add: str_int_30 round2_eleven_eighths)

text \<open>
  C9: the preview handler leaves the file system as it found it, whatever folder and days it is
  given and whether it returns a listing, returns an error object or raises.
\<close>

theorem preview_logs_read_only:
  "snd (preview_logs fs now folder days) = fs"
  by (simp add: preview_logs_def split: sum.split prod.split)

section \<open>Space reported by the delete handler\<close>

text \<open>
  C10: with \<open>confirm=yes\<close> on a folder, \<open>space_freed_mb\<close> is the sum of the sizes of the
  selected files whose removal succeeded, divided by \<open>1024 * 1024\<close> and rounded to two
  decimals; a selected file on which \<open>os.remove\<close> raised adds nothing.
\<close>

theorem delete_logs_space_freed:
  assumes "map_of fs folder = Some (Folder ents)" and "distinct (map fst ents)"
  shows "space_freed_mb (fst (delete_logs fs now folder days ''yes'')) =
     Some (round2 (of_nat (sum_list (map (\<lambda>(n, e). size_bytes e)
       (filter (\<lambda>(n, e). (is_file e \<and> now - mtime e > of_int days * 86400)
                           \<and> remove_error e = None) ents)))
       / (1024 * 1024)))"
proof -
  have sel: "filter (\<lambda>(n, e). (is_file e \<and> now - mtime e > of_int days * 86400)
                           \<and> remove_error e = None) ents
      = filter (\<lambda>(n, e). older_than now days e \<and> remove_error e = None) ents"
    by (simp add: older_than_def)
  show ?thesis
    unfolding sel by (simp add: delete_logs_folder [OF assms] space_mb_def)
qed

theorem delete_logs_space_freed_witness:
  "map_of example_fs ''logs'' \<noteq> None \<and>
   space_freed_mb (fst (delete_logs example_fs 5000100 ''logs'' 30 ''yes'')) = Some (38 / 100)"
  using delete_logs_space_freed [OF example_fs_logs example_logs_distinct, of 5000100 30]
    example_fs_logs
  by (simp add: round2_three_eighths)

end
